theory Spec2Isabelle
  imports Main "HOL-Library.Word"
begin

section \<open>The bootstrap and lifecycle layer of pegnetd (cmd/root.go)\<close>

text \<open>
  The file \<^verbatim>\<open>cmd/root.go\<close> declares the command-line flags (\<^verbatim>\<open>init\<close>), the entry
  point \<^verbatim>\<open>Execute\<close>, the root command with its three hooks (\<^verbatim>\<open>always\<close>,
  \<^verbatim>\<open>ReadConfig\<close> and the \<^verbatim>\<open>Run\<close> closure), the auxiliary hook \<^verbatim>\<open>SoftReadConfig\<close> and
  \<^verbatim>\<open>initLogger\<close>. Everything it does is a call into another package, so the embedding is
  a state-passing one: a \<open>world\<close> record holds the state those packages keep (logging
  threshold, configuration store, exit handler, root context, activation parameters),
  every statement of the source is a function on the world, and every call or assignment
  a statement performs is appended to the world's \<open>trace\<close>, so that the order of effects
  can be stated. What the imported packages answer (the parsed command line, the
  configuration files on disk, whether the node can be built, whether the sync loop
  returns, when the interrupt arrives) is the environment \<open>env\<close>.
\<close>

subsection \<open>Vocabulary of the imported packages\<close>

type_synonym error = string

text \<open>The severities of the logging package, most severe first.\<close>

datatype Level =
  PanicLevel | FatalLevel | ErrorLevel | WarnLevel | InfoLevel | DebugLevel | TraceLevel

text \<open>
  Modelled from the spec: the key constants of package \<^verbatim>\<open>config\<close> (\<^verbatim>\<open>config.LoggingLevel\<close>,
  \<^verbatim>\<open>config.Server\<close>, ...), whose declarations are not among the sources. The spec (section 6)
  lists them as distinct keys, one per flag plus the retry interval and the database path;
  they are kept symbolic.
\<close>

datatype config_key =
  LoggingLevel | Server | Wallet | Pegnetd | APIListen | DBlockSyncRetryPeriod | SqliteDBPath

text \<open>
  The network names of package \<^verbatim>\<open>common\<close> index two maps; \<^verbatim>\<open>common.MainNetwork\<close> and
  \<^verbatim>\<open>common.TestNetwork\<close> are kept symbolic, any other key of the maps is an
  \<open>OtherNetwork\<close>.
\<close>

datatype network = MainNetwork | TestNetwork | OtherNetwork string

text \<open>A command-line flag as the flag package keeps it: name, current value, default, and
  whether the user set it.\<close>

datatype flag_value = BoolVal bool | StringVal string

record Flag =
  Name :: string
  Value :: flag_value
  DefValue :: flag_value
  Changed :: bool

type_synonym FlagSet = "string \<rightharpoonup> Flag"

definition newFlag :: "string \<Rightarrow> flag_value \<Rightarrow> Flag" where
  "newFlag n v = \<lparr>Name = n, Value = v, DefValue = v, Changed = False\<rparr>"

text \<open>\<^verbatim>\<open>init\<close> (lines 24 to 33): the six persistent flags of the root command.\<close>

definition init :: FlagSet where
  "init =
    [''log'' \<mapsto> newFlag ''log'' (StringVal ''info''),
     ''server'' \<mapsto> newFlag ''server'' (StringVal ''http://localhost:8088/v2''),
     ''wallet'' \<mapsto> newFlag ''wallet'' (StringVal ''http://localhost:8089/v2''),
     ''pegnetd'' \<mapsto> newFlag ''pegnetd'' (StringVal ''http://localhost:8070''),
     ''api'' \<mapsto> newFlag ''api'' (StringVal ''8070''),
     ''testing'' \<mapsto> newFlag ''testing'' (BoolVal False)]"

text \<open>Setting a flag on the command line, as the flag package records it.\<close>

definition setFlag :: "string \<Rightarrow> flag_value \<Rightarrow> FlagSet \<Rightarrow> FlagSet" where
  "setFlag n v fs =
     (case fs n of None \<Rightarrow> fs | Some f \<Rightarrow> fs(n \<mapsto> f\<lparr>Value := v, Changed := True\<rparr>))"

text \<open>
  \<^verbatim>\<open>cmd.Flags().Lookup(name)\<close> is the flag or nil. \<^verbatim>\<open>cmd.Flags().GetBool(name)\<close> returns the
  value and no error for a flag of type bool, and \<^verbatim>\<open>false\<close> with an error when the flag
  is not defined or has another type.
\<close>

definition Lookup :: "FlagSet \<Rightarrow> string \<Rightarrow> Flag option" where
  "Lookup fs n = fs n"

definition GetBool :: "FlagSet \<Rightarrow> string \<Rightarrow> bool \<times> error option" where
  "GetBool fs n =
     (case fs n of
        None \<Rightarrow> (False, Some (''flag accessed but not defined: '' @ n))
      | Some f \<Rightarrow>
          (case Value f of
             BoolVal b \<Rightarrow> (b, None)
           | StringVal _ \<Rightarrow> (False, Some (''trying to get bool value of flag of type string''))))"

text \<open>
  \<^verbatim>\<open>strings.ToLower\<close>: a string of ASCII bytes only has its bytes \<^verbatim>\<open>'A'\<close> to \<^verbatim>\<open>'Z'\<close> moved
  by \<^verbatim>\<open>'a' - 'A'\<close>; any other string is mapped rune by rune through the Unicode tables,
  which are the parameter \<open>unicode\<close>.
\<close>

definition isASCII :: "string \<Rightarrow> bool" where
  "isASCII s = list_all (\<lambda>c. (of_char c :: nat) < 128) s"

definition lowerByte :: "char \<Rightarrow> char" where
  "lowerByte c =
     (if (65::nat) \<le> of_char c \<and> (of_char c :: nat) \<le> 90
      then char_of ((of_char c :: nat) + 32) else c)"

definition ToLower :: "(string \<Rightarrow> string) \<Rightarrow> string \<Rightarrow> string" where
  "ToLower unicode s = (if isASCII s then map lowerByte s else unicode s)"

subsection \<open>The exit handler\<close>

text \<open>
  Modelled from the spec: package \<^verbatim>\<open>exit\<close> (the type \<^verbatim>\<open>ExitHandler\<close> behind
  \<^verbatim>\<open>exit.GlobalExitHandler\<close>, with \<^verbatim>\<open>AddCancel\<close> and \<^verbatim>\<open>Close\<close>) is not among the sources.
  Section 3 of the spec gives it an ordered collection of callbacks and a closed flag;
  section 4.2 says that \<^verbatim>\<open>AddCancel\<close> appends a callback, that \<^verbatim>\<open>Close\<close> invokes every
  registered callback and then marks the handler closed, that a further \<^verbatim>\<open>Close\<close> runs
  nothing, and that a callback registered once the handler is closed is either invoked
  at once or skipped, by a fixed policy. The policy is a parameter. Both operations
  return the new handler and the callbacks they invoke, in order.
\<close>

datatype late_policy = InvokeImmediately | Skip

record 'cb ExitHandler =
  cancels :: "'cb list"
  closed :: bool

definition NewExitHandler :: "'cb ExitHandler" where
  "NewExitHandler = \<lparr>cancels = [], closed = False\<rparr>"

definition AddCancel :: "late_policy \<Rightarrow> 'cb \<Rightarrow> 'cb ExitHandler \<Rightarrow> 'cb ExitHandler \<times> 'cb list" where
  "AddCancel pol fn h =
     (if closed h
      then (case pol of InvokeImmediately \<Rightarrow> (h, [fn]) | Skip \<Rightarrow> (h, []))
      else (h\<lparr>cancels := cancels h @ [fn]\<rparr>, []))"

definition Close :: "'cb ExitHandler \<Rightarrow> 'cb ExitHandler \<times> 'cb list" where
  "Close h = (if closed h then (h, []) else (h\<lparr>closed := True\<rparr>, cancels h))"

text \<open>A sequence of operations on one handler, and what each operation invoked.\<close>

datatype 'cb exit_op = OpAddCancel 'cb | OpClose

fun apply_exit_op :: "late_policy \<Rightarrow> 'cb exit_op \<Rightarrow> 'cb ExitHandler \<Rightarrow> 'cb ExitHandler \<times> 'cb list" where
  "apply_exit_op pol (OpAddCancel fn) h = AddCancel pol fn h"
| "apply_exit_op pol OpClose h = Close h"

fun run_exit_ops :: "late_policy \<Rightarrow> 'cb exit_op list \<Rightarrow> 'cb ExitHandler \<Rightarrow> 'cb list list" where
  "run_exit_ops pol [] h = []"
| "run_exit_ops pol (op # ops) h =
     (case apply_exit_op pol op h of (h', invoked) \<Rightarrow> invoked # run_exit_ops pol ops h')"

fun isClose :: "'cb exit_op \<Rightarrow> bool" where
  "isClose OpClose = True"
| "isClose (OpAddCancel _) = False"

fun registrations :: "'cb exit_op list \<Rightarrow> 'cb list" where
  "registrations [] = []"
| "registrations (OpAddCancel fn # ops) = fn # registrations ops"
| "registrations (OpClose # ops) = registrations ops"

text \<open>The callbacks run by the \<^verbatim>\<open>Close\<close> calls of a sequence, in order, given what each
  operation of the sequence invoked.\<close>

fun ran_by_Close :: "'cb exit_op list \<Rightarrow> 'cb list list \<Rightarrow> 'cb list" where
  "ran_by_Close (OpClose # ops) (r # rs) = r @ ran_by_Close ops rs"
| "ran_by_Close (OpAddCancel _ # ops) (r # rs) = ran_by_Close ops rs"
| "ran_by_Close _ _ = []"

subsection \<open>The configuration store\<close>

text \<open>
  Modelled from the spec: the configuration store (the package behind \<^verbatim>\<open>viper.SetConfigName\<close>,
  \<^verbatim>\<open>AddConfigPath\<close>, \<^verbatim>\<open>BindPFlag\<close>, \<^verbatim>\<open>SetDefault\<close>, \<^verbatim>\<open>ReadInConfig\<close> and \<^verbatim>\<open>GetString\<close>) is not
  among the sources. Section 4.1 of the spec: the file is searched in the ordered list
  of locations; a key bound to a flag takes the flag's value when the user set the flag,
  before the file's value, before the seeded default. The flag's own default (the table
  of section 6) is the last fallback of a bound key; a key with no value at all has none,
  and its typed lookup is the zero value.
\<close>

datatype config_value = StringValue string | BoolValue bool | DurationValue "64 word"

type_synonym settings = "config_key \<rightharpoonup> config_value"

record ConfigurationStore =
  configName :: string
  configPaths :: "string list"
  pflags :: "config_key \<rightharpoonup> Flag"
  config :: settings
  defaults :: settings

definition NewConfigurationStore :: ConfigurationStore where
  "NewConfigurationStore =
     \<lparr>configName = ''config'', configPaths = [], pflags = Map.empty,
      config = Map.empty, defaults = Map.empty\<rparr>"

definition SetConfigName :: "string \<Rightarrow> ConfigurationStore \<Rightarrow> ConfigurationStore" where
  "SetConfigName n v = v\<lparr>configName := n\<rparr>"

definition AddConfigPath :: "string \<Rightarrow> ConfigurationStore \<Rightarrow> ConfigurationStore" where
  "AddConfigPath p v = v\<lparr>configPaths := configPaths v @ [p]\<rparr>"

text \<open>Binding to a nil flag is an error and binds nothing.\<close>

definition BindPFlag :: "config_key \<Rightarrow> Flag option \<Rightarrow> ConfigurationStore \<Rightarrow> ConfigurationStore \<times> error option" where
  "BindPFlag k fl v =
     (case fl of
        None \<Rightarrow> (v, Some ''flag is nil'')
      | Some f \<Rightarrow> (v\<lparr>pflags := (pflags v)(k \<mapsto> f)\<rparr>, None))"

definition SetDefault :: "config_key \<Rightarrow> config_value \<Rightarrow> ConfigurationStore \<Rightarrow> ConfigurationStore" where
  "SetDefault k x v = v\<lparr>defaults := (defaults v)(k \<mapsto> x)\<rparr>"

text \<open>The files on disk: for a directory and a file name, nothing, a file that cannot be
  read, or the settings it holds.\<close>

type_synonym disk = "string \<Rightarrow> string \<Rightarrow> (error + settings) option"

fun searchConfig :: "disk \<Rightarrow> string \<Rightarrow> string list \<Rightarrow> error + settings" where
  "searchConfig d n [] = Inl ''Config File Not Found''"
| "searchConfig d n (p # ps) =
     (case d p n of None \<Rightarrow> searchConfig d n ps | Some r \<Rightarrow> r)"

definition ReadInConfig :: "disk \<Rightarrow> ConfigurationStore \<Rightarrow> ConfigurationStore \<times> error option" where
  "ReadInConfig d v =
     (case searchConfig d (configName v) (configPaths v) of
        Inl err \<Rightarrow> (v, Some err)
      | Inr kv \<Rightarrow> (v\<lparr>config := kv\<rparr>, None))"

definition flagConfigValue :: "flag_value \<Rightarrow> config_value" where
  "flagConfigValue x = (case x of StringVal s \<Rightarrow> StringValue s | BoolVal b \<Rightarrow> BoolValue b)"

definition Get :: "ConfigurationStore \<Rightarrow> config_key \<Rightarrow> config_value option" where
  "Get v k =
     (case pflags v k of
        Some f \<Rightarrow>
          (if Changed f then Some (flagConfigValue (Value f))
           else (case config v k of
                   Some x \<Rightarrow> Some x
                 | None \<Rightarrow>
                     (case defaults v k of
                        Some x \<Rightarrow> Some x
                      | None \<Rightarrow> Some (flagConfigValue (Value f)))))
      | None \<Rightarrow>
          (case config v k of
             Some x \<Rightarrow> Some x
           | None \<Rightarrow> defaults v k))"

text \<open>The typed lookup of a string; a value that is not a string is outside what the
  sources do with it and reads as the zero value.\<close>

definition GetString :: "ConfigurationStore \<Rightarrow> config_key \<Rightarrow> string" where
  "GetString v k = (case Get v k of Some (StringValue s) \<Rightarrow> s | _ \<Rightarrow> [])"

subsection \<open>The state of the process and what the outside answers\<close>

text \<open>The only callback the file registers is the cancel function of the root context.\<close>

datatype callback = CancelRoot

datatype ctx_state = NoContext | Active | Canceled

text \<open>One action per call or assignment of the source, in the order performed.\<close>

datatype action =
    A_Log Level string "error option"
  | A_Println error
  | A_Exit int
  | A_SetPegnetActivation int
  | A_SetGradingV2Activation int
  | A_SetActivationHeight network "64 word"
  | A_SetGradingHeight network
  | A_SetConfigName string
  | A_AddConfigPath string
  | A_BindPFlag config_key string
  | A_SetDefault config_key config_value
  | A_SignalNotify
  | A_GoListener
  | A_ReadInConfig
  | A_SetLevel Level
  | A_WithCancel
  | A_AddCancel callback
  | A_Close
  | A_Invoke callback
  | A_NewPegnetd
  | A_NewAPIServer
  | A_GoAPIServerStart
  | A_DBlockSync

record world =
  trace :: "action list"
  level :: Level
  store :: ConfigurationStore
  exitHandler :: "callback ExitHandler"
  ctx :: ctx_state
  PegnetActivation :: int
  GradingV2Activation :: int
  ActivationHeights :: "network \<rightharpoonup> 64 word"
  GradingHeights :: "network \<rightharpoonup> (64 word \<Rightarrow> 8 word)"
  listening :: bool
  apiServerStarted :: bool

record env =
  unicodeLower :: "string \<Rightarrow> string"
  latePolicy :: late_policy
  commandLine :: "error + FlagSet"
  files :: disk
  NewPegnetd :: "ConfigurationStore \<Rightarrow> error option"
  DBlockSyncReturns :: bool
  sigint :: "nat option"

text \<open>
  A function of the source either returns, or ends the process with a status
  (\<^verbatim>\<open>os.Exit\<close>), or never returns (the sync loop).
\<close>

datatype outcome = Returned world | Exited int world | Blocked world

definition act :: "action \<Rightarrow> world \<Rightarrow> world" where
  "act a w = w\<lparr>trace := trace w @ [a]\<rparr>"

definition logCall :: "Level \<Rightarrow> string \<Rightarrow> error option \<Rightarrow> world \<Rightarrow> world" where
  "logCall l msg err w = act (A_Log l msg err) w"

definition osExit :: "int \<Rightarrow> world \<Rightarrow> outcome" where
  "osExit c w = Exited c (act (A_Exit c) w)"

text \<open>Invoking the cancel function cancels the root context; the context stays canceled.\<close>

fun invoke :: "world \<Rightarrow> callback \<Rightarrow> world" where
  "invoke w CancelRoot = act (A_Invoke CancelRoot) (w\<lparr>ctx := Canceled\<rparr>)"

definition GlobalAddCancel :: "late_policy \<Rightarrow> callback \<Rightarrow> world \<Rightarrow> world" where
  "GlobalAddCancel pol fn w =
     (case AddCancel pol fn (exitHandler w) of
        (h, invoked) \<Rightarrow> foldl invoke (act (A_AddCancel fn) (w\<lparr>exitHandler := h\<rparr>)) invoked)"

definition GlobalClose :: "world \<Rightarrow> world" where
  "GlobalClose w =
     (case Close (exitHandler w) of
        (h, invoked) \<Rightarrow> foldl invoke (act A_Close (w\<lparr>exitHandler := h\<rparr>)) invoked)"

subsection \<open>initLogger, ReadConfig and SoftReadConfig\<close>

definition SetLevel :: "Level \<Rightarrow> world \<Rightarrow> world" where
  "SetLevel l w = act (A_SetLevel l) (w\<lparr>level := l\<rparr>)"

text \<open>\<^verbatim>\<open>initLogger\<close> (lines 137 to 152): a switch on the lower-cased configured name, with no
  default branch.\<close>

definition initLogger :: "env \<Rightarrow> world \<Rightarrow> world" where
  "initLogger e w =
     (let name = ToLower (unicodeLower e) (GetString (store w) LoggingLevel) in
      if name = ''trace'' then SetLevel TraceLevel w
      else if name = ''debug'' then SetLevel DebugLevel w
      else if name = ''info'' then SetLevel InfoLevel w
      else if name = ''warn'' then SetLevel WarnLevel w
      else if name = ''error'' then SetLevel ErrorLevel w
      else if name = ''fatal'' then SetLevel FatalLevel w
      else w)"

definition viperReadInConfig :: "env \<Rightarrow> world \<Rightarrow> world \<times> error option" where
  "viperReadInConfig e w =
     (case ReadInConfig (files e) (store w) of
        (v, err) \<Rightarrow> (act A_ReadInConfig (w\<lparr>store := v\<rparr>), err))"

text \<open>\<^verbatim>\<open>ReadConfig\<close> (lines 115 to 123).\<close>

definition ReadConfig :: "env \<Rightarrow> world \<Rightarrow> outcome" where
  "ReadConfig e w =
     (case viperReadInConfig e w of
        (w1, Some err) \<Rightarrow> osExit 1 (logCall ErrorLevel ''failed to load config'' (Some err) w1)
      | (w1, None) \<Rightarrow> Returned (initLogger e w1))"

text \<open>\<^verbatim>\<open>SoftReadConfig\<close> (lines 127 to 134).\<close>

definition SoftReadConfig :: "env \<Rightarrow> world \<Rightarrow> outcome" where
  "SoftReadConfig e w =
     (case viperReadInConfig e w of
        (w1, Some err) \<Rightarrow>
          Returned (initLogger e (logCall DebugLevel ''failed to load config'' (Some err) w1))
      | (w1, None) \<Rightarrow> Returned (initLogger e w1))"

subsection \<open>always\<close>

definition setPegnetActivation :: "int \<Rightarrow> world \<Rightarrow> world" where
  "setPegnetActivation n w = act (A_SetPegnetActivation n) (w\<lparr>PegnetActivation := n\<rparr>)"

definition setGradingV2Activation :: "int \<Rightarrow> world \<Rightarrow> world" where
  "setGradingV2Activation n w = act (A_SetGradingV2Activation n) (w\<lparr>GradingV2Activation := n\<rparr>)"

definition setActivationHeight :: "network \<Rightarrow> 64 word \<Rightarrow> world \<Rightarrow> world" where
  "setActivationHeight n h w =
     act (A_SetActivationHeight n h) (w\<lparr>ActivationHeights := (ActivationHeights w)(n \<mapsto> h)\<rparr>)"

definition setGradingHeight :: "network \<Rightarrow> (64 word \<Rightarrow> 8 word) \<Rightarrow> world \<Rightarrow> world" where
  "setGradingHeight n f w =
     act (A_SetGradingHeight n) (w\<lparr>GradingHeights := (GradingHeights w)(n \<mapsto> f)\<rparr>)"

text \<open>The body of the \<^verbatim>\<open>if\<close> of lines 72 to 80.\<close>

definition testingOverrides :: "world \<Rightarrow> world" where
  "testingOverrides w =
     (let w = logCall InfoLevel ''in testing mode, activation heights are 0'' None w;
          w = setPegnetActivation 0 w;
          w = setGradingV2Activation 0 w;
          w = setActivationHeight MainNetwork 0 w;
          w = setActivationHeight TestNetwork 0 w;
          w = setGradingHeight MainNetwork (\<lambda>height. 2) w;
          w = setGradingHeight TestNetwork (\<lambda>height. 2) w
      in w)"

definition viperSetConfigName :: "string \<Rightarrow> world \<Rightarrow> world" where
  "viperSetConfigName n w = act (A_SetConfigName n) (w\<lparr>store := SetConfigName n (store w)\<rparr>)"

definition viperAddConfigPath :: "string \<Rightarrow> world \<Rightarrow> world" where
  "viperAddConfigPath p w = act (A_AddConfigPath p) (w\<lparr>store := AddConfigPath p (store w)\<rparr>)"

text \<open>\<^verbatim>\<open>_ = viper.BindPFlag(key, cmd.Flags().Lookup(name))\<close>: the error is dropped.\<close>

definition viperBindPFlag :: "config_key \<Rightarrow> FlagSet \<Rightarrow> string \<Rightarrow> world \<Rightarrow> world" where
  "viperBindPFlag k fs n w =
     act (A_BindPFlag k n) (w\<lparr>store := fst (BindPFlag k (Lookup fs n) (store w))\<rparr>)"

definition viperSetDefault :: "config_key \<Rightarrow> config_value \<Rightarrow> world \<Rightarrow> world" where
  "viperSetDefault k x w = act (A_SetDefault k x) (w\<lparr>store := SetDefault k x (store w)\<rparr>)"

text \<open>Lines 101 to 111: the channel is subscribed to the interrupt and the goroutine that
  waits on it is started.\<close>

definition installListener :: "world \<Rightarrow> world" where
  "installListener w = act A_GoListener (act A_SignalNotify (w\<lparr>listening := True\<rparr>))"

text \<open>\<^verbatim>\<open>time.Second * 5\<close> in nanoseconds.\<close>

definition fiveSeconds :: "64 word" where
  "fiveSeconds = 1000000000 * 5"

text \<open>\<^verbatim>\<open>always\<close> (lines 70 to 112), on the flag set of the command.\<close>

definition always :: "FlagSet \<Rightarrow> world \<Rightarrow> world" where
  "always fs w =
     (let w = (case GetBool fs ''testing'' of (ok, _) \<Rightarrow> if ok then testingOverrides w else w);
          w = viperSetConfigName ''pegnetd-conf'' w;
          w = viperAddConfigPath ''$HOME/.pegnetd'' w;
          w = viperAddConfigPath ''.'' w;
          w = viperBindPFlag LoggingLevel fs ''log'' w;
          w = viperBindPFlag Server fs ''server'' w;
          w = viperBindPFlag Wallet fs ''wallet'' w;
          w = viperBindPFlag Pegnetd fs ''pegnetd'' w;
          w = viperBindPFlag APIListen fs ''api'' w;
          w = viperSetDefault DBlockSyncRetryPeriod (DurationValue fiveSeconds) w;
          w = viperSetDefault SqliteDBPath (StringValue ''$HOME/.pegnetd/mainnet/sql.db'') w;
          w = installListener w
      in w)"

text \<open>The goroutine of lines 103 to 111, from the moment the interrupt is received.\<close>

definition interruptListener :: "world \<Rightarrow> outcome" where
  "interruptListener w =
     (let w = logCall InfoLevel ''Gracefully closing'' None w;
          w = GlobalClose w;
          w = logCall InfoLevel ''closing application'' None w
      in osExit 0 w)"

subsection \<open>Run and Execute\<close>

type_synonym statement = "env \<Rightarrow> world \<Rightarrow> outcome"

text \<open>The statements of the \<^verbatim>\<open>Run\<close> closure (lines 48 to 66), one definition each.\<close>

definition stmtWithCancel :: statement where
  "stmtWithCancel e w = Returned (act A_WithCancel (w\<lparr>ctx := Active\<rparr>))"

definition stmtAddCancel :: statement where
  "stmtAddCancel e w = Returned (GlobalAddCancel (latePolicy e) CancelRoot w)"

definition stmtNewPegnetd :: statement where
  "stmtNewPegnetd e w =
     (case NewPegnetd e (store w) of
        Some err \<Rightarrow>
          osExit 1 (logCall ErrorLevel ''failed to launch pegnet node'' (Some err) (act A_NewPegnetd w))
      | None \<Rightarrow> Returned (act A_NewPegnetd w))"

definition stmtNewAPIServer :: statement where
  "stmtNewAPIServer e w = Returned (act A_NewAPIServer w)"

definition stmtGoAPIServerStart :: statement where
  "stmtGoAPIServerStart e w = Returned (act A_GoAPIServerStart (w\<lparr>apiServerStarted := True\<rparr>))"

definition stmtDBlockSync :: statement where
  "stmtDBlockSync e w =
     (if DBlockSyncReturns e then Returned (act A_DBlockSync w) else Blocked (act A_DBlockSync w))"

definition RunStatements :: "statement list" where
  "RunStatements =
     [stmtWithCancel, stmtAddCancel, stmtNewPegnetd, stmtNewAPIServer, stmtGoAPIServerStart,
      stmtDBlockSync]"

text \<open>
  The primary path runs its statements in order. The interrupt, if it arrives, is
  handled by the listener goroutine between two statements of the primary path:
  \<open>Some k\<close> is an interrupt handled when \<open>k\<close> statements have finished, \<open>None\<close> is no
  interrupt. An interrupt that is still to come when the primary path blocks in the
  sync loop is handled while it blocks. The listener runs to its \<^verbatim>\<open>os.Exit\<close> without
  the primary path moving.
\<close>

fun primary :: "nat option \<Rightarrow> statement list \<Rightarrow> env \<Rightarrow> world \<Rightarrow> outcome" where
  "primary sig [] e w = Returned w"
| "primary sig (s # ss) e w =
     (if sig = Some 0 then interruptListener w
      else (case s e w of
              Returned w' \<Rightarrow> primary (map_option (\<lambda>k. k - 1) sig) ss e w'
            | Exited c w' \<Rightarrow> Exited c w'
            | Blocked w' \<Rightarrow> (case sig of None \<Rightarrow> Blocked w' | Some _ \<Rightarrow> interruptListener w')))"

text \<open>The \<^verbatim>\<open>Run\<close> closure on its own, with an interrupt at \<open>sig\<close>.\<close>

definition Run :: "nat option \<Rightarrow> env \<Rightarrow> world \<Rightarrow> outcome" where
  "Run sig e w = primary sig RunStatements e w"

text \<open>
  \<^verbatim>\<open>Execute\<close> (lines 36 to 41) with the root command (lines 43 to 67): the command
  framework either rejects the command line with an error before any hook runs, or runs
  \<^verbatim>\<open>PersistentPreRun\<close> (\<^verbatim>\<open>always\<close>), \<^verbatim>\<open>PreRun\<close> (\<^verbatim>\<open>ReadConfig\<close>) and \<^verbatim>\<open>Run\<close> in this order and
  returns no error, none of the hooks returning one. The interrupt of the environment
  is counted in statements after \<^verbatim>\<open>always\<close>, which installs the listener.
\<close>

definition Execute :: "env \<Rightarrow> world \<Rightarrow> outcome" where
  "Execute e w =
     (case commandLine e of
        Inl err \<Rightarrow> osExit 1 (act (A_Println err) w)
      | Inr fs \<Rightarrow> primary (sigint e) (ReadConfig # RunStatements) e (always fs w))"

text \<open>
  Modelled from the spec: \<^verbatim>\<open>main\<close> is not among the sources; it calls \<^verbatim>\<open>Execute\<close> and returns,
  so a process whose \<^verbatim>\<open>Execute\<close> returns ends with status 0 (section 6 of the spec: 0 on a
  normal shutdown). A blocked process has no status.
\<close>

fun exitStatus :: "outcome \<Rightarrow> int option" where
  "exitStatus (Returned w) = Some 0"
| "exitStatus (Exited c w) = Some c"
| "exitStatus (Blocked w) = None"

fun finalWorld :: "outcome \<Rightarrow> world" where
  "finalWorld (Returned w) = w"
| "finalWorld (Exited c w) = w"
| "finalWorld (Blocked w) = w"

text \<open>The process as it starts: nothing logged or configured, default threshold, no
  context; the activation parameters are those the packages \<^verbatim>\<open>node\<close> and \<^verbatim>\<open>common\<close> declare.\<close>

definition processStart ::
  "int \<Rightarrow> int \<Rightarrow> (network \<rightharpoonup> 64 word) \<Rightarrow> (network \<rightharpoonup> (64 word \<Rightarrow> 8 word)) \<Rightarrow> world" where
  "processStart pa ga ah gh =
     \<lparr>trace = [], level = InfoLevel, store = NewConfigurationStore,
      exitHandler = NewExitHandler, ctx = NoContext,
      PegnetActivation = pa, GradingV2Activation = ga,
      ActivationHeights = ah, GradingHeights = gh,
      listening = False, apiServerStarted = False\<rparr>"

subsection \<open>Concrete inputs\<close>

text \<open>An environment with no configuration file on disk, a node that can be built, a
  sync loop that never returns and no interrupt; and a process as it starts.\<close>

definition exampleEnv :: env where
  "exampleEnv =
     \<lparr>unicodeLower = (\<lambda>s. s), latePolicy = Skip, commandLine = Inr init,
      files = (\<lambda>d n. None), NewPegnetd = (\<lambda>v. None), DBlockSyncReturns = False,
      sigint = None\<rparr>"

definition exampleStart :: world where
  "exampleStart = processStart 206421 210330 [MainNetwork \<mapsto> 206421] Map.empty"

text \<open>A disk with a configuration file in the current directory that sets the logging
  level to warn.\<close>

definition exampleDisk :: disk where
  "exampleDisk =
     (\<lambda>d n. if d = ''.'' \<and> n = ''pegnetd-conf''
            then Some (Inr [LoggingLevel \<mapsto> StringValue ''warn'']) else None)"

section \<open>Properties\<close>

subsection \<open>Frame lemmas\<close>

lemmas world_defs = act_def logCall_def osExit_def SetLevel_def
  setPegnetActivation_def setGradingV2Activation_def setActivationHeight_def
  setGradingHeight_def viperSetConfigName_def viperAddConfigPath_def viperBindPFlag_def
  viperSetDefault_def installListener_def testingOverrides_def

lemma BindPFlag_frame:
  "configName (fst (BindPFlag k fl v)) = configName v"
  "configPaths (fst (BindPFlag k fl v)) = configPaths v"
  "config (fst (BindPFlag k fl v)) = config v"
  "defaults (fst (BindPFlag k fl v)) = defaults v"
  "pflags (fst (BindPFlag k fl v)) =
     (case fl of None \<Rightarrow> pflags v | Some f \<Rightarrow> (pflags v)(k \<mapsto> f))"
  by (simp_all add: BindPFlag_def split: option.splits)

lemmas store_simps = SetConfigName_def AddConfigPath_def SetDefault_def BindPFlag_frame

lemmas always_simps = always_def Let_def world_defs fiveSeconds_def case_prod_unfold

lemma always_store:
  "configName (store (always fs w)) = ''pegnetd-conf''"
  "configPaths (store (always fs w)) = configPaths (store w) @ [''$HOME/.pegnetd'', ''.'']"
  "defaults (store (always fs w)) =
     (defaults (store w))(DBlockSyncRetryPeriod \<mapsto> DurationValue 5000000000,
        SqliteDBPath \<mapsto> StringValue ''$HOME/.pegnetd/mainnet/sql.db'')"
  "config (store (always fs w)) = config (store w)"
  by (simp_all add: always_simps store_simps)

lemma always_pflags:
  "pflags (store (always fs w)) k =
     (case (case k of LoggingLevel \<Rightarrow> fs ''log'' | Server \<Rightarrow> fs ''server''
                    | Wallet \<Rightarrow> fs ''wallet'' | Pegnetd \<Rightarrow> fs ''pegnetd''
                    | APIListen \<Rightarrow> fs ''api'' | _ \<Rightarrow> None) of
        Some f \<Rightarrow> Some f
      | None \<Rightarrow> pflags (store w) k)"
  by (cases k) (simp_all add: always_simps store_simps Lookup_def split: option.splits)

lemmas example_defs = exampleEnv_def exampleStart_def processStart_def
  NewConfigurationStore_def NewExitHandler_def

lemma ReadInConfig_error:
  "snd (ReadInConfig d v) = Some err \<Longrightarrow> fst (ReadInConfig d v) = v"
  by (simp add: ReadInConfig_def split: sum.splits)

lemma GetBool_error_False: "snd (GetBool fs n) \<noteq> None \<Longrightarrow> fst (GetBool fs n) = False"
  by (auto simp: GetBool_def split: option.splits flag_value.splits)

lemma example_log_flag:
  "GetString (store (always (setFlag ''log'' (StringVal s) init) exampleStart)) LoggingLevel = s"
  by (simp add: always_store always_pflags example_defs GetString_def Get_def setFlag_def
      init_def newFlag_def flagConfigValue_def)

lemma ToLower_examples:
  "ToLower (unicodeLower exampleEnv) ''WaRn'' = ''warn''"
  "ToLower (unicodeLower exampleEnv) ''verbose'' = ''verbose''"
  by code_simp+

subsection \<open>The logging threshold\<close>

text \<open>
  C4. Whatever the configured name of the logging level is: when its lower-cased form is
  one of trace, debug, info, warn, error and fatal, the threshold after \<^verbatim>\<open>initLogger\<close> is
  the level of that name; when it is none of them, \<^verbatim>\<open>initLogger\<close> changes nothing at all
  (same threshold, nothing else done, and the function has no way to fail).
\<close>

theorem initLogger_sets_matching_level:
  "(\<forall>l. map_of [(''trace'', TraceLevel), (''debug'', DebugLevel), (''info'', InfoLevel),
               (''warn'', WarnLevel), (''error'', ErrorLevel), (''fatal'', FatalLevel)]
          (ToLower (unicodeLower e) (GetString (store w) LoggingLevel)) = Some l
        \<longrightarrow> level (initLogger e w) = l) \<and>
   (ToLower (unicodeLower e) (GetString (store w) LoggingLevel)
        \<notin> set [''trace'', ''debug'', ''info'', ''warn'', ''error'', ''fatal'']
        \<longrightarrow> initLogger e w = w)"
  by (simp add: initLogger_def SetLevel_def act_def Let_def)

theorem initLogger_sets_matching_level_witness:
  "level (initLogger exampleEnv
       (always (setFlag ''log'' (StringVal ''WaRn'') init) exampleStart)) = WarnLevel \<and>
   initLogger exampleEnv (always (setFlag ''log'' (StringVal ''verbose'') init) exampleStart)
     = always (setFlag ''log'' (StringVal ''verbose'') init) exampleStart"
  using initLogger_sets_matching_level
          [of exampleEnv "always (setFlag ''log'' (StringVal ''WaRn'') init) exampleStart"]
        initLogger_sets_matching_level
          [of exampleEnv "always (setFlag ''log'' (StringVal ''verbose'') init) exampleStart"]
  by (simp add: example_log_flag ToLower_examples)

subsection \<open>The soft configuration hook\<close>

text \<open>
  C8. When the configuration file cannot be loaded, \<^verbatim>\<open>SoftReadConfig\<close> makes one log call at
  debug level with the error, leaves the configuration store as it was (so the defaults
  stand), runs \<^verbatim>\<open>initLogger\<close> and returns: it neither exits nor blocks.
\<close>

theorem SoftReadConfig_continues:
  "snd (ReadInConfig (files e) (store w)) = Some err \<Longrightarrow>
   SoftReadConfig e w =
     Returned (initLogger e
       (w\<lparr>trace := trace w @
             [A_ReadInConfig, A_Log DebugLevel ''failed to load config'' (Some err)]\<rparr>))"
  by (simp add: SoftReadConfig_def viperReadInConfig_def act_def logCall_def case_prod_unfold
      ReadInConfig_error)

theorem SoftReadConfig_continues_witness:
  "snd (ReadInConfig (files exampleEnv) (store (always init exampleStart)))
      = Some ''Config File Not Found'' \<and>
   SoftReadConfig exampleEnv (always init exampleStart) =
     Returned (initLogger exampleEnv
       ((always init exampleStart)\<lparr>trace := trace (always init exampleStart) @
             [A_ReadInConfig,
              A_Log DebugLevel ''failed to load config'' (Some ''Config File Not Found'')]\<rparr>))"
proof -
  have h: "snd (ReadInConfig (files exampleEnv) (store (always init exampleStart)))
             = Some ''Config File Not Found''"
    by (simp add: ReadInConfig_def always_store example_defs)
  show ?thesis using h SoftReadConfig_continues [OF h] by simp
qed

subsection \<open>The testing flag\<close>

lemma GetBool_cases: "GetBool fs n = (True, None) \<or> fst (GetBool fs n) = False"
  by (auto simp: GetBool_def split: option.splits flag_value.splits)

lemma always_activation_testing:
  assumes "fst (GetBool fs ''testing'')"
  shows "PegnetActivation (always fs w) = 0"
    and "GradingV2Activation (always fs w) = 0"
    and "ActivationHeights (always fs w) =
           (ActivationHeights w)(MainNetwork \<mapsto> 0, TestNetwork \<mapsto> 0)"
    and "GradingHeights (always fs w) =
           (GradingHeights w)(MainNetwork \<mapsto> (\<lambda>height. 2), TestNetwork \<mapsto> (\<lambda>height. 2))"
  using assms by (simp_all add: always_simps)

lemma always_activation_plain:
  assumes "\<not> fst (GetBool fs ''testing'')"
  shows "PegnetActivation (always fs w) = PegnetActivation w"
    and "GradingV2Activation (always fs w) = GradingV2Activation w"
    and "ActivationHeights (always fs w) = ActivationHeights w"
    and "GradingHeights (always fs w) = GradingHeights w"
  using assms by (simp_all add: always_simps)

lemma always_only_reads_testing:
  assumes "fst (GetBool fs ''testing'') = fst (GetBool fs' ''testing'')"
    and "\<And>n. n \<noteq> ''testing'' \<Longrightarrow> fs n = fs' n"
  shows "always fs w = always fs' w"
  using assms by (simp add: always_def Let_def viperBindPFlag_def Lookup_def case_prod_unfold)

text \<open>
  C7. When the lookup of the testing flag yields true, \<^verbatim>\<open>always\<close> leaves
  \<^verbatim>\<open>PegnetActivation\<close> and \<^verbatim>\<open>GradingV2Activation\<close> at 0, the activation heights of the
  main network and of the test network at 0, and the grading-height functions of both
  networks equal to the function that is 2 at every height, whatever these parameters
  were before.
\<close>

theorem always_testing_overrides:
  "fst (GetBool fs ''testing'') \<Longrightarrow>
     PegnetActivation (always fs w) = 0 \<and>
     GradingV2Activation (always fs w) = 0 \<and>
     ActivationHeights (always fs w) MainNetwork = Some 0 \<and>
     ActivationHeights (always fs w) TestNetwork = Some 0 \<and>
     GradingHeights (always fs w) MainNetwork = Some (\<lambda>height. 2) \<and>
     GradingHeights (always fs w) TestNetwork = Some (\<lambda>height. 2)"
  by (simp add: always_activation_testing)

theorem always_testing_overrides_witness:
  "fst (GetBool (setFlag ''testing'' (BoolVal True) init) ''testing'') \<and>
   PegnetActivation exampleStart = 206421 \<and>
   ActivationHeights exampleStart MainNetwork = Some 206421 \<and>
   GradingHeights exampleStart TestNetwork = None \<and>
   PegnetActivation (always (setFlag ''testing'' (BoolVal True) init) exampleStart) = 0 \<and>
   GradingV2Activation (always (setFlag ''testing'' (BoolVal True) init) exampleStart) = 0 \<and>
   ActivationHeights (always (setFlag ''testing'' (BoolVal True) init) exampleStart) MainNetwork
     = Some 0 \<and>
   ActivationHeights (always (setFlag ''testing'' (BoolVal True) init) exampleStart) TestNetwork
     = Some 0 \<and>
   GradingHeights (always (setFlag ''testing'' (BoolVal True) init) exampleStart) MainNetwork
     = Some (\<lambda>height. 2) \<and>
   GradingHeights (always (setFlag ''testing'' (BoolVal True) init) exampleStart) TestNetwork
     = Some (\<lambda>height. 2)"
proof -
  have h: "fst (GetBool (setFlag ''testing'' (BoolVal True) init) ''testing'')"
    by (simp add: GetBool_def setFlag_def init_def newFlag_def)
  show ?thesis
    using h always_testing_overrides [OF h, of exampleStart] by (simp add: example_defs)
qed

text \<open>
  C10. When the lookup of the testing flag returns an error, \<^verbatim>\<open>always\<close> does exactly what
  it does on the same flags with a testing flag that is false; and unless the lookup
  returns true with no error, the four activation parameters are left as they were.
\<close>

theorem always_testing_lookup_error:
  "(snd (GetBool fs ''testing'') \<noteq> None \<longrightarrow>
      always fs w = always (fs(''testing'' \<mapsto> newFlag ''testing'' (BoolVal False))) w) \<and>
   (GetBool fs ''testing'' \<noteq> (True, None) \<longrightarrow>
      PegnetActivation (always fs w) = PegnetActivation w \<and>
      GradingV2Activation (always fs w) = GradingV2Activation w \<and>
      ActivationHeights (always fs w) = ActivationHeights w \<and>
      GradingHeights (always fs w) = GradingHeights w)"
proof (intro conjI impI)
  assume err: "snd (GetBool fs ''testing'') \<noteq> None"
  have "fst (GetBool fs ''testing'') = False"
    using err by (rule GetBool_error_False)
  moreover have "fst (GetBool (fs(''testing'' \<mapsto> newFlag ''testing'' (BoolVal False))) ''testing'')
      = False"
    by (simp add: GetBool_def newFlag_def)
  ultimately show "always fs w = always (fs(''testing'' \<mapsto> newFlag ''testing'' (BoolVal False))) w"
    by (intro always_only_reads_testing) simp_all
next
  assume "GetBool fs ''testing'' \<noteq> (True, None)"
  then have plain: "\<not> fst (GetBool fs ''testing'')"
    using GetBool_cases [of fs "''testing''"] by simp
  show "PegnetActivation (always fs w) = PegnetActivation w"
    and "GradingV2Activation (always fs w) = GradingV2Activation w"
    and "ActivationHeights (always fs w) = ActivationHeights w"
    and "GradingHeights (always fs w) = GradingHeights w"
    using plain by (simp_all add: always_activation_plain)
qed

theorem always_testing_lookup_error_witness:
  "snd (GetBool (init(''testing'' \<mapsto> newFlag ''testing'' (StringVal ''true''))) ''testing'')
     = Some ''trying to get bool value of flag of type string'' \<and>
   always (init(''testing'' \<mapsto> newFlag ''testing'' (StringVal ''true''))) exampleStart
     = always init exampleStart \<and>
   PegnetActivation (always (init(''testing'' \<mapsto> newFlag ''testing'' (StringVal ''true'')))
       exampleStart) = 206421"
proof -
  have h: "snd (GetBool (init(''testing'' \<mapsto> newFlag ''testing'' (StringVal ''true''))) ''testing'')
             = Some ''trying to get bool value of flag of type string''"
    by (simp add: GetBool_def newFlag_def)
  have i: "(init(''testing'' \<mapsto> newFlag ''testing'' (StringVal ''true'')))
             (''testing'' \<mapsto> newFlag ''testing'' (BoolVal False)) = init"
    by (rule ext) (simp add: init_def)
  have e: "GetBool (init(''testing'' \<mapsto> newFlag ''testing'' (StringVal ''true''))) ''testing''
             \<noteq> (True, None)"
    using h by auto
  note t = always_testing_lookup_error
      [of "init(''testing'' \<mapsto> newFlag ''testing'' (StringVal ''true''))" exampleStart]
  have a: "always (init(''testing'' \<mapsto> newFlag ''testing'' (StringVal ''true''))) exampleStart
             = always init exampleStart"
    using t h i by simp
  have b: "PegnetActivation
             (always (init(''testing'' \<mapsto> newFlag ''testing'' (StringVal ''true''))) exampleStart)
             = PegnetActivation exampleStart"
    using t e by blast
  have p: "PegnetActivation exampleStart = 206421"
    by (simp add: example_defs)
  show ?thesis using h a b p by simp
qed

subsection \<open>The exit handler in the world\<close>

lemma invoke_all:
  "trace (foldl invoke w cs) = trace w @ map A_Invoke cs"
  "ctx (foldl invoke w cs) = (if cs = [] then ctx w else Canceled)"
  "exitHandler (foldl invoke w cs) = exitHandler w"
  "store (foldl invoke w cs) = store w"
  "level (foldl invoke w cs) = level w"
proof (induction cs arbitrary: w)
  case Nil
  {
    case 1 show ?case by simp
  next
    case 2 show ?case by simp
  next
    case 3 show ?case by simp
  next
    case 4 show ?case by simp
  next
    case 5 show ?case by simp
  }
next
  case (Cons c cs)
  {
    case 1 show ?case by (cases c) (simp add: Cons.IH act_def)
  next
    case 2 show ?case by (cases c) (simp add: Cons.IH act_def)
  next
    case 3 show ?case by (cases c) (simp add: Cons.IH act_def)
  next
    case 4 show ?case by (cases c) (simp add: Cons.IH act_def)
  next
    case 5 show ?case by (cases c) (simp add: Cons.IH act_def)
  }
qed

lemma GlobalClose_simps:
  "trace (GlobalClose w) = trace w @ A_Close # map A_Invoke (snd (Close (exitHandler w)))"
  "ctx (GlobalClose w) = (if snd (Close (exitHandler w)) = [] then ctx w else Canceled)"
  "exitHandler (GlobalClose w) = fst (Close (exitHandler w))"
  by (simp_all add: GlobalClose_def case_prod_unfold invoke_all act_def)

lemma interruptListener_simps:
  "exitStatus (interruptListener w) = Some 0"
  "trace (finalWorld (interruptListener w)) =
     trace w @ [A_Log InfoLevel ''Gracefully closing'' None, A_Close] @
     map A_Invoke (snd (Close (exitHandler w))) @
     [A_Log InfoLevel ''closing application'' None, A_Exit 0]"
  "ctx (finalWorld (interruptListener w)) =
     (if snd (Close (exitHandler w)) = [] then ctx w else Canceled)"
  by (simp_all add: interruptListener_def Let_def osExit_def logCall_def act_def
      GlobalClose_simps)

subsection \<open>The order of the bootstrap\<close>

text \<open>
  C6, as the claim states it, fails: it has \<^verbatim>\<open>always\<close> bind all command-line flags to
  configuration keys, but the testing flag, which \<^verbatim>\<open>init\<close> declares with the others, is
  bound to no key by \<^verbatim>\<open>always\<close>.
\<close>

theorem always_binds_all_flags_counterexample:
  "''testing'' \<in> dom init \<and>
   ''testing'' \<notin> Name ` ran (pflags (store (always init exampleStart)))"
proof -
  have bound: "Name f \<noteq> ''testing''"
    if "pflags (store (always init exampleStart)) k = Some f" for k f
    using that
    by (cases k)
       (auto simp: always_pflags example_defs init_def newFlag_def split: option.splits)
  have "''testing'' \<notin> Name ` ran (pflags (store (always init exampleStart)))"
  proof
    assume "''testing'' \<in> Name ` ran (pflags (store (always init exampleStart)))"
    then obtain f where f: "f \<in> ran (pflags (store (always init exampleStart)))"
      and n: "Name f = ''testing''"
      by force
    from f obtain k where "pflags (store (always init exampleStart)) k = Some f"
      unfolding ran_def by force
    from bound [OF this] n show False by simp
  qed
  then show ?thesis by (simp add: init_def)
qed

text \<open>
  C6, amended. On every invocation \<^verbatim>\<open>always\<close> performs, in this order: (1) when the
  lookup of the testing flag yields true, the log call and the six assignments of the
  testing mode; (2) the name of the configuration file, the search path under the home
  directory, then the current directory, and the binding of the five flags log, server,
  wallet, pegnetd and api to their keys (each flag the flag set has; no other key is
  bound); (3) the defaults of the sync-retry period (five seconds) and of the database
  path; (4) the subscription to the interrupt and the start of the listener. The
  listener, once it runs, logs, calls \<^verbatim>\<open>Close\<close> on the exit handler, which invokes the
  callbacks, logs again and exits with status 0.
\<close>

theorem always_order:
  "trace (always fs w) =
     trace w @
     (if fst (GetBool fs ''testing'')
      then [A_Log InfoLevel ''in testing mode, activation heights are 0'' None,
            A_SetPegnetActivation 0, A_SetGradingV2Activation 0,
            A_SetActivationHeight MainNetwork 0, A_SetActivationHeight TestNetwork 0,
            A_SetGradingHeight MainNetwork, A_SetGradingHeight TestNetwork]
      else []) @
     [A_SetConfigName ''pegnetd-conf'', A_AddConfigPath ''$HOME/.pegnetd'', A_AddConfigPath ''.'',
      A_BindPFlag LoggingLevel ''log'', A_BindPFlag Server ''server'', A_BindPFlag Wallet ''wallet'',
      A_BindPFlag Pegnetd ''pegnetd'', A_BindPFlag APIListen ''api''] @
     [A_SetDefault DBlockSyncRetryPeriod (DurationValue 5000000000),
      A_SetDefault SqliteDBPath (StringValue ''$HOME/.pegnetd/mainnet/sql.db'')] @
     [A_SignalNotify, A_GoListener] \<and>
   configName (store (always fs w)) = ''pegnetd-conf'' \<and>
   configPaths (store (always fs w)) = configPaths (store w) @ [''$HOME/.pegnetd'', ''.''] \<and>
   pflags (store (always fs w)) k =
     (case (case k of LoggingLevel \<Rightarrow> fs ''log'' | Server \<Rightarrow> fs ''server''
                    | Wallet \<Rightarrow> fs ''wallet'' | Pegnetd \<Rightarrow> fs ''pegnetd''
                    | APIListen \<Rightarrow> fs ''api'' | _ \<Rightarrow> None) of
        Some f \<Rightarrow> Some f
      | None \<Rightarrow> pflags (store w) k) \<and>
   defaults (store (always fs w)) =
     (defaults (store w))(DBlockSyncRetryPeriod \<mapsto> DurationValue 5000000000,
        SqliteDBPath \<mapsto> StringValue ''$HOME/.pegnetd/mainnet/sql.db'') \<and>
   listening (always fs w) \<and>
   exitStatus (interruptListener w') = Some 0 \<and>
   trace (finalWorld (interruptListener w')) =
     trace w' @ [A_Log InfoLevel ''Gracefully closing'' None, A_Close] @
     map A_Invoke (snd (Close (exitHandler w'))) @
     [A_Log InfoLevel ''closing application'' None, A_Exit 0]"
proof -
  have "trace (always fs w) =
     trace w @
     (if fst (GetBool fs ''testing'')
      then [A_Log InfoLevel ''in testing mode, activation heights are 0'' None,
            A_SetPegnetActivation 0, A_SetGradingV2Activation 0,
            A_SetActivationHeight MainNetwork 0, A_SetActivationHeight TestNetwork 0,
            A_SetGradingHeight MainNetwork, A_SetGradingHeight TestNetwork]
      else []) @
     [A_SetConfigName ''pegnetd-conf'', A_AddConfigPath ''$HOME/.pegnetd'', A_AddConfigPath ''.'',
      A_BindPFlag LoggingLevel ''log'', A_BindPFlag Server ''server'', A_BindPFlag Wallet ''wallet'',
      A_BindPFlag Pegnetd ''pegnetd'', A_BindPFlag APIListen ''api''] @
     [A_SetDefault DBlockSyncRetryPeriod (DurationValue 5000000000),
      A_SetDefault SqliteDBPath (StringValue ''$HOME/.pegnetd/mainnet/sql.db'')] @
     [A_SignalNotify, A_GoListener]"
    by (simp add: always_simps)
  moreover have "listening (always fs w)"
    by (simp add: always_simps)
  ultimately show ?thesis
    by (simp only: always_store always_pflags interruptListener_simps simp_thms)
qed

subsection \<open>Closing the exit handler more than once\<close>

lemma AddCancel_closed:
  "closed h \<Longrightarrow>
   AddCancel pol fn h = (h, case pol of InvokeImmediately \<Rightarrow> [fn] | Skip \<Rightarrow> [])"
  by (simp add: AddCancel_def split: late_policy.splits)

lemma run_exit_ops_closed:
  "closed h \<Longrightarrow>
   run_exit_ops pol ops h =
     map (\<lambda>op. case op of
                  OpAddCancel fn \<Rightarrow> (case pol of InvokeImmediately \<Rightarrow> [fn] | Skip \<Rightarrow> [])
                | OpClose \<Rightarrow> []) ops"
proof (induction ops arbitrary: h)
  case Nil
  show ?case by simp
next
  case (Cons op ops)
  show ?case
  proof (cases op)
    case (OpAddCancel fn)
    with Cons show ?thesis
      by (simp add: AddCancel_closed)
  next
    case OpClose
    with Cons show ?thesis
      by (simp add: Close_def)
  qed
qed

lemma run_exit_ops_open:
  "\<not> closed h \<Longrightarrow> \<not> list_ex isClose pre \<Longrightarrow>
   run_exit_ops pol (pre @ OpClose # post) h =
     map (\<lambda>_. []) pre @
     (cancels h @ registrations pre) #
     run_exit_ops pol post (h\<lparr>cancels := cancels h @ registrations pre, closed := True\<rparr>)"
proof (induction pre arbitrary: h)
  case Nil
  then show ?case by (simp add: Close_def)
next
  case (Cons op pre)
  show ?case
  proof (cases op)
    case (OpAddCancel fn)
    have "\<not> closed (h\<lparr>cancels := cancels h @ [fn]\<rparr>)"
      using Cons.prems by simp
    moreover have "\<not> list_ex isClose pre"
      using Cons.prems by simp
    ultimately show ?thesis
      using Cons.prems Cons.IH [of "h\<lparr>cancels := cancels h @ [fn]\<rparr>"] OpAddCancel
      by (simp add: AddCancel_def)
  next
    case OpClose
    with Cons.prems show ?thesis by simp
  qed
qed

lemma ran_by_Close_append:
  "length pre = length rs \<Longrightarrow>
   ran_by_Close (pre @ ops) (rs @ rs') =
     ran_by_Close pre rs @ ran_by_Close ops rs'"
proof (induction pre rs rule: list_induct2)
  case Nil
  show ?case by simp
next
  case (Cons op pre r rs)
  then show ?case by (cases op) simp_all
qed

lemma ran_by_Close_nothing:
  "ran_by_Close ops (map (\<lambda>_. []) ops) = []"
proof (induction ops)
  case Nil
  show ?case by simp
next
  case (Cons op ops)
  then show ?case by (cases op) simp_all
qed

lemma ran_by_Close_closed:
  "ran_by_Close ops
     (map (\<lambda>op. case op of
                  OpAddCancel fn \<Rightarrow> (case pol of InvokeImmediately \<Rightarrow> [fn] | Skip \<Rightarrow> [])
                | OpClose \<Rightarrow> []) ops) = []"
proof (induction ops)
  case Nil
  show ?case by simp
next
  case (Cons op ops)
  then show ?case by (cases op) simp_all
qed

text \<open>
  C2. On a new exit handler, take any operations without a \<^verbatim>\<open>Close\<close>, then a \<^verbatim>\<open>Close\<close>,
  then any operations at all, so any number of further \<^verbatim>\<open>Close\<close> calls. The first
  \<^verbatim>\<open>Close\<close> invokes the callbacks registered before it, each registration once and in
  order; every later \<^verbatim>\<open>Close\<close> invokes nothing; so all the \<^verbatim>\<open>Close\<close> calls together run
  exactly the callbacks registered before the first, once each. Every operation returns
  (the operations have no failure).
\<close>

theorem Close_runs_callbacks_once:
  "\<not> list_ex isClose pre \<Longrightarrow>
   run_exit_ops pol (pre @ OpClose # post) NewExitHandler =
     map (\<lambda>_. []) pre @
     registrations pre #
     map (\<lambda>op. case op of
                  OpAddCancel fn \<Rightarrow> (case pol of InvokeImmediately \<Rightarrow> [fn] | Skip \<Rightarrow> [])
                | OpClose \<Rightarrow> []) post \<and>
   ran_by_Close (pre @ OpClose # post)
     (run_exit_ops pol (pre @ OpClose # post) NewExitHandler) = registrations pre"
proof -
  assume pre: "\<not> list_ex isClose pre"
  have open_new: "\<not> closed (NewExitHandler :: 'a ExitHandler)"
    by (simp add: NewExitHandler_def)
  have run: "run_exit_ops pol (pre @ OpClose # post) NewExitHandler =
     map (\<lambda>_. []) pre @
     registrations pre #
     map (\<lambda>op. case op of
                  OpAddCancel fn \<Rightarrow> (case pol of InvokeImmediately \<Rightarrow> [fn] | Skip \<Rightarrow> [])
                | OpClose \<Rightarrow> []) post"
    using run_exit_ops_open [OF open_new pre, of pol post]
    by (simp add: run_exit_ops_closed NewExitHandler_def)
  have "ran_by_Close (pre @ OpClose # post)
          (map (\<lambda>_. []) pre @
           registrations pre #
           map (\<lambda>op. case op of
                  OpAddCancel fn \<Rightarrow> (case pol of InvokeImmediately \<Rightarrow> [fn] | Skip \<Rightarrow> [])
                | OpClose \<Rightarrow> []) post) = registrations pre"
    by (simp add: ran_by_Close_append ran_by_Close_nothing ran_by_Close_closed)
  with run show ?thesis by simp
qed

theorem Close_runs_callbacks_once_witness:
  "\<not> list_ex isClose [OpAddCancel (1::nat), OpAddCancel 2] \<and>
   run_exit_ops InvokeImmediately
     ([OpAddCancel (1::nat), OpAddCancel 2] @ OpClose # [OpClose, OpAddCancel 3, OpClose])
     NewExitHandler = [[], [], [1, 2], [], [3], []] \<and>
   ran_by_Close
     ([OpAddCancel (1::nat), OpAddCancel 2] @ OpClose # [OpClose, OpAddCancel 3, OpClose])
     (run_exit_ops InvokeImmediately
        ([OpAddCancel (1::nat), OpAddCancel 2] @ OpClose # [OpClose, OpAddCancel 3, OpClose])
        NewExitHandler) = [1, 2]"
proof -
  have h: "\<not> list_ex isClose [OpAddCancel (1::nat), OpAddCancel 2]"
    by simp
  show ?thesis
    using h Close_runs_callbacks_once
        [OF h, of InvokeImmediately "[OpClose, OpAddCancel 3, OpClose]"]
    by simp
qed

subsection \<open>The precedence of the configuration tiers\<close>

text \<open>
  C5. For a key bound to a flag and with a seeded default, the lookup gives the flag's
  value when the user set the flag, else the file's value when the file has one, else
  the seeded default; the typed lookup of a string is that value when it is a string.
\<close>

theorem Get_precedence:
  "pflags v k = Some f \<Longrightarrow> defaults v k = Some d \<Longrightarrow>
   Get v k =
     Some (if Changed f then flagConfigValue (Value f)
           else (case config v k of Some x \<Rightarrow> x | None \<Rightarrow> d)) \<and>
   GetString v k =
     (case (if Changed f then flagConfigValue (Value f)
            else (case config v k of Some x \<Rightarrow> x | None \<Rightarrow> d)) of
        StringValue s \<Rightarrow> s
      | _ \<Rightarrow> [])"
  by (simp add: GetString_def Get_def split: option.splits)

lemma ReadInConfig_exampleDisk:
  "configName v = ''pegnetd-conf'' \<Longrightarrow> configPaths v = [''$HOME/.pegnetd'', ''.''] \<Longrightarrow>
   fst (ReadInConfig exampleDisk v) = v\<lparr>config := [LoggingLevel \<mapsto> StringValue ''warn'']\<rparr>"
  by (simp add: ReadInConfig_def exampleDisk_def)

theorem Get_precedence_witness:
  "Get (fst (ReadInConfig exampleDisk
          (SetDefault LoggingLevel (StringValue ''error'')
             (store (always (setFlag ''log'' (StringVal ''debug'') init) exampleStart)))))
      LoggingLevel = Some (StringValue ''debug'') \<and>
   Get (fst (ReadInConfig exampleDisk
          (SetDefault LoggingLevel (StringValue ''error'') (store (always init exampleStart)))))
      LoggingLevel = Some (StringValue ''warn'') \<and>
   Get (SetDefault LoggingLevel (StringValue ''error'') (store (always init exampleStart)))
      LoggingLevel = Some (StringValue ''error'')"
proof -
  let ?d = "StringValue ''error''"
  let ?set = "store (always (setFlag ''log'' (StringVal ''debug'') init) exampleStart)"
  let ?unset = "store (always init exampleStart)"
  let ?v1 = "fst (ReadInConfig exampleDisk (SetDefault LoggingLevel ?d ?set))"
  let ?v2 = "fst (ReadInConfig exampleDisk (SetDefault LoggingLevel ?d ?unset))"
  let ?v3 = "SetDefault LoggingLevel ?d ?unset"
  have v1: "?v1 = (SetDefault LoggingLevel ?d ?set)\<lparr>config := [LoggingLevel \<mapsto> StringValue ''warn'']\<rparr>"
    by (rule ReadInConfig_exampleDisk) (simp_all add: SetDefault_def always_store example_defs)
  have v2: "?v2 = (SetDefault LoggingLevel ?d ?unset)\<lparr>config := [LoggingLevel \<mapsto> StringValue ''warn'']\<rparr>"
    by (rule ReadInConfig_exampleDisk) (simp_all add: SetDefault_def always_store example_defs)
  have p1: "pflags ?v1 LoggingLevel
              = Some ((newFlag ''log'' (StringVal ''info''))\<lparr>Value := StringVal ''debug'', Changed := True\<rparr>)"
    unfolding v1 by (simp add: SetDefault_def always_pflags setFlag_def init_def)
  have p2: "pflags ?v2 LoggingLevel = Some (newFlag ''log'' (StringVal ''info''))"
    unfolding v2 by (simp add: SetDefault_def always_pflags init_def)
  have p3: "pflags ?v3 LoggingLevel = Some (newFlag ''log'' (StringVal ''info''))"
    by (simp add: SetDefault_def always_pflags init_def)
  have d1: "defaults ?v1 LoggingLevel = Some ?d"
    unfolding v1 by (simp add: SetDefault_def)
  have d2: "defaults ?v2 LoggingLevel = Some ?d"
    unfolding v2 by (simp add: SetDefault_def)
  have d3: "defaults ?v3 LoggingLevel = Some ?d"
    by (simp add: SetDefault_def)
  have c2: "config ?v2 LoggingLevel = Some (StringValue ''warn'')"
    unfolding v2 by simp
  have c3: "config ?v3 LoggingLevel = None"
    by (simp add: SetDefault_def always_store example_defs)
  show ?thesis
    using Get_precedence [OF p1 d1] Get_precedence [OF p2 d2] Get_precedence [OF p3 d3] c2 c3
    by (simp add: newFlag_def flagConfigValue_def)
qed

subsection \<open>The primary path and the interrupt\<close>

lemma primary_None:
  "primary None (s # ss) e w =
     (case s e w of
        Returned w' \<Rightarrow> primary None ss e w'
      | Exited c w' \<Rightarrow> Exited c w'
      | Blocked w' \<Rightarrow> Blocked w')"
  by (simp split: outcome.splits)

lemma primary_0: "primary (Some 0) (s # ss) e w = interruptListener w"
  by simp

lemma primary_Suc:
  "primary (Some (Suc k)) (s # ss) e w =
     (case s e w of
        Returned w' \<Rightarrow> primary (Some k) ss e w'
      | Exited c w' \<Rightarrow> Exited c w'
      | Blocked w' \<Rightarrow> interruptListener w')"
  by (simp split: outcome.splits)

lemmas primary_simps = primary.simps(1) primary_None primary_0 primary_Suc

lemma GlobalAddCancel_open:
  "\<not> closed (exitHandler w) \<Longrightarrow>
   GlobalAddCancel pol fn w =
     w\<lparr>trace := trace w @ [A_AddCancel fn],
       exitHandler := (exitHandler w)\<lparr>cancels := cancels (exitHandler w) @ [fn]\<rparr>\<rparr>"
  by (simp add: GlobalAddCancel_def AddCancel_def act_def)

lemma GlobalAddCancel_trace:
  "trace (GlobalAddCancel pol fn w) =
     trace w @ A_AddCancel fn # map A_Invoke (snd (AddCancel pol fn (exitHandler w)))"
  by (simp add: GlobalAddCancel_def case_prod_unfold invoke_all act_def)

lemma GlobalAddCancel_store: "store (GlobalAddCancel pol fn w) = store w"
  by (simp add: GlobalAddCancel_def case_prod_unfold invoke_all act_def)

lemma upto6_cases:
  obtains "k = 0" | "k = Suc 0" | "k = Suc (Suc 0)" | "k = Suc (Suc (Suc 0))"
    | "k = Suc (Suc (Suc (Suc 0)))" | "k = Suc (Suc (Suc (Suc (Suc 0))))"
    | j where "k = Suc (Suc (Suc (Suc (Suc (Suc j)))))"
proof (cases "k < 6")
  case True
  then have "k = 0 \<or> k = 1 \<or> k = 2 \<or> k = 3 \<or> k = 4 \<or> k = 5" by arith
  then show ?thesis using that by (auto simp: numeral_eq_Suc)
next
  case False
  then have "k = Suc (Suc (Suc (Suc (Suc (Suc (k - 6))))))" by arith
  then show ?thesis using that by blast
qed

lemmas Run_simps = Run_def RunStatements_def primary_simps
  stmtWithCancel_def stmtAddCancel_def stmtNewPegnetd_def stmtNewAPIServer_def
  stmtGoAPIServerStart_def stmtDBlockSync_def

text \<open>What an uninterrupted, or late interrupted, \<^verbatim>\<open>Run\<close> does when the node cannot be
  built.\<close>

lemma Run_node_failure:
  assumes "NewPegnetd e (store w) = Some err" and "\<not> closed (exitHandler w)"
    and "sig = None \<or> sig = Some (Suc (Suc (Suc j)))"
  shows "Run sig e w =
     Exited 1
       (w\<lparr>trace := trace w @
             [A_WithCancel, A_AddCancel CancelRoot, A_NewPegnetd,
              A_Log ErrorLevel ''failed to launch pegnet node'' (Some err), A_Exit 1],
          exitHandler := (exitHandler w)\<lparr>cancels := cancels (exitHandler w) @ [CancelRoot]\<rparr>,
          ctx := Active\<rparr>)"
  using assms
  by (auto simp: Run_simps GlobalAddCancel_open act_def logCall_def osExit_def)

text \<open>
  C9. When the construction of the node fails in \<^verbatim>\<open>Run\<close> (so the interrupt, if any, has not
  been handled before it), the process exits with status 1 and all \<^verbatim>\<open>Run\<close> has done is:
  create the context, register its cancel function, attempt the construction, log the
  error, exit. The exit handler is not closed and still holds the cancel function, no
  callback has been invoked and the context is not canceled.
\<close>

theorem Run_node_failure_skips_Close:
  "NewPegnetd e (store w) = Some err \<Longrightarrow> \<not> closed (exitHandler w) \<Longrightarrow>
   (\<forall>k. sig = Some k \<longrightarrow> 3 \<le> k) \<Longrightarrow>
   Run sig e w =
     Exited 1
       (w\<lparr>trace := trace w @
             [A_WithCancel, A_AddCancel CancelRoot, A_NewPegnetd,
              A_Log ErrorLevel ''failed to launch pegnet node'' (Some err), A_Exit 1],
          exitHandler := (exitHandler w)\<lparr>cancels := cancels (exitHandler w) @ [CancelRoot]\<rparr>,
          ctx := Active\<rparr>)"
proof -
  assume fail: "NewPegnetd e (store w) = Some err" and op: "\<not> closed (exitHandler w)"
    and late: "\<forall>k. sig = Some k \<longrightarrow> 3 \<le> k"
  have "sig = None \<or> sig = Some (Suc (Suc (Suc (the sig - 3))))"
  proof (cases sig)
    case None
    then show ?thesis by simp
  next
    case (Some k)
    with late have "3 \<le> k" by simp
    then have "k = Suc (Suc (Suc (k - 3)))" by arith
    with Some show ?thesis by simp
  qed
  from Run_node_failure [OF fail op this] show ?thesis .
qed

theorem Run_node_failure_skips_Close_witness:
  "Run None (exampleEnv\<lparr>NewPegnetd := \<lambda>v. Some ''no database''\<rparr>) exampleStart =
     Exited 1
       (exampleStart\<lparr>trace :=
             [A_WithCancel, A_AddCancel CancelRoot, A_NewPegnetd,
              A_Log ErrorLevel ''failed to launch pegnet node'' (Some ''no database''), A_Exit 1],
          exitHandler := \<lparr>cancels = [CancelRoot], closed = False\<rparr>,
          ctx := Active\<rparr>)"
proof -
  have f: "NewPegnetd (exampleEnv\<lparr>NewPegnetd := \<lambda>v. Some ''no database''\<rparr>) (store exampleStart)
             = Some ''no database''"
    by simp
  have c: "\<not> closed (exitHandler exampleStart)"
    by (simp add: example_defs)
  have s: "\<forall>k. (None :: nat option) = Some k \<longrightarrow> 3 \<le> k"
    by simp
  show ?thesis
    using Run_node_failure_skips_Close [OF f c s] by (simp add: example_defs)
qed

subsection \<open>Registration of the cancel function\<close>

lemma Run_AddCancel_precedes_start:
  "A_GoAPIServerStart \<in> set (drop (length (trace w)) (trace (finalWorld (Run sig e w)))) \<longrightarrow>
   A_AddCancel CancelRoot
     \<in> set (takeWhile (\<lambda>a. a \<noteq> A_GoAPIServerStart)
              (drop (length (trace w)) (trace (finalWorld (Run sig e w)))))"
proof (cases sig)
  case None
  then show ?thesis
    by (auto simp: Run_simps GlobalAddCancel_trace GlobalAddCancel_store act_def logCall_def
        osExit_def split: option.splits)
next
  case (Some k)
  show ?thesis
  proof (cases k rule: upto6_cases)
    case 1
    with Some show ?thesis
      by (auto simp: Run_simps interruptListener_simps)
  next
    case 2
    with Some show ?thesis
      by (auto simp: Run_simps interruptListener_simps act_def)
  next
    case 3
    with Some show ?thesis
      by (auto simp: Run_simps interruptListener_simps GlobalAddCancel_trace act_def)
  next
    case 4
    with Some show ?thesis
      by (auto simp: Run_simps interruptListener_simps GlobalAddCancel_trace
          GlobalAddCancel_store act_def logCall_def osExit_def split: option.splits)
  next
    case 5
    with Some show ?thesis
      by (auto simp: Run_simps interruptListener_simps GlobalAddCancel_trace
          GlobalAddCancel_store act_def logCall_def osExit_def split: option.splits)
  next
    case 6
    with Some show ?thesis
      by (auto simp: Run_simps interruptListener_simps GlobalAddCancel_trace
          GlobalAddCancel_store act_def logCall_def osExit_def split: option.splits)
  next
    case (7 j)
    with Some show ?thesis
      by (cases j)
         (auto simp: Run_simps interruptListener_simps GlobalAddCancel_trace
          GlobalAddCancel_store act_def logCall_def osExit_def split: option.splits)
  qed
qed

lemma Run_interrupt_cancels:
  assumes "\<not> closed (exitHandler w)"
    and "j = 0 \<or> NewPegnetd e (store w) = None"
    and "j \<le> 3 \<or> \<not> DBlockSyncReturns e"
  shows "exitStatus (Run (Some (Suc (Suc j))) e w) = Some 0"
    and "ctx (finalWorld (Run (Some (Suc (Suc j))) e w)) = Canceled"
    and "A_Invoke CancelRoot
           \<in> set (drop (length (trace w)) (trace (finalWorld (Run (Some (Suc (Suc j))) e w))))"
proof -
  have "exitStatus (Run (Some (Suc (Suc j))) e w) = Some 0 \<and>
        ctx (finalWorld (Run (Some (Suc (Suc j))) e w)) = Canceled \<and>
        A_Invoke CancelRoot
           \<in> set (drop (length (trace w)) (trace (finalWorld (Run (Some (Suc (Suc j))) e w))))"
  proof (cases j rule: upto6_cases)
    case 1
    with assms show ?thesis
      by (simp add: Run_simps interruptListener_simps GlobalAddCancel_open Close_def act_def)
  next
    case 2
    with assms show ?thesis
      by (simp add: Run_simps interruptListener_simps GlobalAddCancel_open Close_def act_def)
  next
    case 3
    with assms show ?thesis
      by (simp add: Run_simps interruptListener_simps GlobalAddCancel_open Close_def act_def)
  next
    case 4
    with assms show ?thesis
      by (simp add: Run_simps interruptListener_simps GlobalAddCancel_open Close_def act_def)
  next
    case 5
    with assms show ?thesis
      by (simp add: Run_simps interruptListener_simps GlobalAddCancel_open Close_def act_def)
  next
    case 6
    with assms show ?thesis
      by (simp add: Run_simps interruptListener_simps GlobalAddCancel_open Close_def act_def)
  next
    case (7 i)
    with assms show ?thesis
      by (simp add: Run_simps interruptListener_simps GlobalAddCancel_open Close_def act_def)
  qed
  then show "exitStatus (Run (Some (Suc (Suc j))) e w) = Some 0"
    and "ctx (finalWorld (Run (Some (Suc (Suc j))) e w)) = Canceled"
    and "A_Invoke CancelRoot
           \<in> set (drop (length (trace w)) (trace (finalWorld (Run (Some (Suc (Suc j))) e w))))"
    by simp_all
qed

text \<open>
  C1. In every run of \<^verbatim>\<open>Run\<close>, with the interrupt handled at any point or never, whenever
  the API server task is started the registration of the root cancel function with the
  exit handler comes before it. And with the exit handler open when \<^verbatim>\<open>Run\<close> begins, an
  interrupt handled at any point from the registration on (so at any point after the
  start of the API server), in a run that the failure of the node or the return of the
  sync loop has not ended before, makes the listener invoke the cancel function: the
  root context, which the node and the API server hold, is canceled, and the process
  exits with status 0.
\<close>

theorem Run_registers_cancel_before_api_start:
  "(A_GoAPIServerStart \<in> set (drop (length (trace w)) (trace (finalWorld (Run sig e w)))) \<longrightarrow>
      A_AddCancel CancelRoot
        \<in> set (takeWhile (\<lambda>a. a \<noteq> A_GoAPIServerStart)
                 (drop (length (trace w)) (trace (finalWorld (Run sig e w)))))) \<and>
   (\<not> closed (exitHandler w) \<longrightarrow> 2 \<le> k \<longrightarrow>
    (k \<le> 2 \<or> NewPegnetd e (store w) = None) \<longrightarrow>
    (k \<le> 5 \<or> \<not> DBlockSyncReturns e) \<longrightarrow>
      exitStatus (Run (Some k) e w) = Some 0 \<and>
      ctx (finalWorld (Run (Some k) e w)) = Canceled \<and>
      A_Invoke CancelRoot
        \<in> set (drop (length (trace w)) (trace (finalWorld (Run (Some k) e w)))))"
proof (intro conjI impI)
  assume "A_GoAPIServerStart \<in> set (drop (length (trace w)) (trace (finalWorld (Run sig e w))))"
  then show "A_AddCancel CancelRoot
        \<in> set (takeWhile (\<lambda>a. a \<noteq> A_GoAPIServerStart)
                 (drop (length (trace w)) (trace (finalWorld (Run sig e w)))))"
    by (rule Run_AddCancel_precedes_start [rule_format])
next
  assume op: "\<not> closed (exitHandler w)" and k: "2 \<le> k"
    and node: "k \<le> 2 \<or> NewPegnetd e (store w) = None"
    and loop: "k \<le> 5 \<or> \<not> DBlockSyncReturns e"
  from k have eq: "k = Suc (Suc (k - 2))" by arith
  have node': "k - 2 = 0 \<or> NewPegnetd e (store w) = None" using node by auto
  have loop': "k - 2 \<le> 3 \<or> \<not> DBlockSyncReturns e" using loop by auto
  note r = Run_interrupt_cancels [OF op node' loop', folded eq]
  show "exitStatus (Run (Some k) e w) = Some 0" by (rule r(1))
  show "ctx (finalWorld (Run (Some k) e w)) = Canceled" by (rule r(2))
  show "A_Invoke CancelRoot
        \<in> set (drop (length (trace w)) (trace (finalWorld (Run (Some k) e w))))" by (rule r(3))
qed

theorem Run_registers_cancel_before_api_start_witness:
  "drop (length (trace exampleStart)) (trace (finalWorld (Run None exampleEnv exampleStart)))
     = [A_WithCancel, A_AddCancel CancelRoot, A_NewPegnetd, A_NewAPIServer,
        A_GoAPIServerStart, A_DBlockSync] \<and>
   A_AddCancel CancelRoot
     \<in> set (takeWhile (\<lambda>a. a \<noteq> A_GoAPIServerStart)
          (drop (length (trace exampleStart))
             (trace (finalWorld (Run None exampleEnv exampleStart))))) \<and>
   exitStatus (Run (Some 5) exampleEnv exampleStart) = Some 0 \<and>
   ctx (finalWorld (Run (Some 5) exampleEnv exampleStart)) = Canceled"
proof -
  have t: "drop (length (trace exampleStart)) (trace (finalWorld (Run None exampleEnv exampleStart)))
     = [A_WithCancel, A_AddCancel CancelRoot, A_NewPegnetd, A_NewAPIServer,
        A_GoAPIServerStart, A_DBlockSync]"
    by (simp add: Run_simps GlobalAddCancel_open act_def example_defs)
  have s: "A_GoAPIServerStart
     \<in> set (drop (length (trace exampleStart))
          (trace (finalWorld (Run None exampleEnv exampleStart))))"
    unfolding t by simp
  have c: "\<not> closed (exitHandler exampleStart)"
    by (simp add: example_defs)
  have n: "NewPegnetd exampleEnv (store exampleStart) = None"
    by (simp add: example_defs)
  note inst = Run_registers_cancel_before_api_start [of exampleStart None exampleEnv 5]
  from inst s have a: "A_AddCancel CancelRoot
     \<in> set (takeWhile (\<lambda>a. a \<noteq> A_GoAPIServerStart)
          (drop (length (trace exampleStart))
             (trace (finalWorld (Run None exampleEnv exampleStart)))))"
    by blast
  from inst c n have b: "exitStatus (Run (Some 5) exampleEnv exampleStart) = Some 0 \<and>
      ctx (finalWorld (Run (Some 5) exampleEnv exampleStart)) = Canceled"
    by simp
  from t a b show ?thesis by simp
qed

subsection \<open>The exit status of the process\<close>

lemma initLogger_store: "store (initLogger e w) = store w"
  by (simp add: initLogger_def Let_def SetLevel_def act_def)

lemma ReadConfig_error:
  "snd (ReadInConfig (files e) (store w)) = Some err \<Longrightarrow>
   ReadConfig e w =
     Exited 1 (w\<lparr>trace := trace w @
        [A_ReadInConfig, A_Log ErrorLevel ''failed to load config'' (Some err), A_Exit 1]\<rparr>)"
  by (simp add: ReadConfig_def viperReadInConfig_def case_prod_unfold ReadInConfig_error
      act_def logCall_def osExit_def)

lemma ReadConfig_loaded:
  "snd (ReadInConfig (files e) (store w)) = None \<Longrightarrow>
   ReadConfig e w =
     Returned (initLogger e
       (w\<lparr>store := fst (ReadInConfig (files e) (store w)),
          trace := trace w @ [A_ReadInConfig]\<rparr>))"
  by (simp add: ReadConfig_def viperReadInConfig_def case_prod_unfold act_def)

lemma Run_status:
  "exitStatus (Run sig e w) =
     (if sig \<in> {Some 0, Some 1, Some 2} then Some 0
      else if NewPegnetd e (store w) \<noteq> None then Some 1
      else if sig = None \<and> \<not> DBlockSyncReturns e then None
      else Some 0)"
proof (cases sig)
  case None
  then show ?thesis
    by (auto simp: Run_simps GlobalAddCancel_store act_def logCall_def osExit_def
        split: option.splits)
next
  case (Some k)
  show ?thesis
  proof (cases k rule: upto6_cases)
    case 1
    with Some show ?thesis by (simp add: Run_simps interruptListener_simps)
  next
    case 2
    with Some show ?thesis by (simp add: Run_simps interruptListener_simps)
  next
    case 3
    with Some show ?thesis by (simp add: Run_simps interruptListener_simps)
  next
    case 4
    with Some show ?thesis
      by (auto simp: Run_simps interruptListener_simps GlobalAddCancel_store act_def
          logCall_def osExit_def split: option.splits)
  next
    case 5
    with Some show ?thesis
      by (auto simp: Run_simps interruptListener_simps GlobalAddCancel_store act_def
          logCall_def osExit_def split: option.splits)
  next
    case 6
    with Some show ?thesis
      by (auto simp: Run_simps interruptListener_simps GlobalAddCancel_store act_def
          logCall_def osExit_def split: option.splits)
  next
    case (7 j)
    with Some show ?thesis
      by (cases j)
         (auto simp: Run_simps interruptListener_simps GlobalAddCancel_store act_def
          logCall_def osExit_def split: option.splits)
  qed
qed

lemma Run_node_failure_trace:
  assumes "NewPegnetd e (store w) = Some err"
    and "sig \<notin> {Some 0, Some 1, Some 2}"
  shows "\<exists>t. trace (finalWorld (Run sig e w)) =
     t @ [A_NewPegnetd, A_Log ErrorLevel ''failed to launch pegnet node'' (Some err), A_Exit 1]"
proof (cases sig)
  case None
  with assms(1) show ?thesis
    by (simp add: Run_simps GlobalAddCancel_store GlobalAddCancel_trace act_def logCall_def
        osExit_def)
next
  case (Some k)
  with assms(2) have "3 \<le> k" by (cases k rule: upto6_cases) simp_all
  then have "k = Suc (Suc (Suc (k - 3)))" by arith
  then obtain j where "sig = Some (Suc (Suc (Suc j)))" using Some by blast
  with assms(1) show ?thesis
    by (simp add: Run_simps GlobalAddCancel_store GlobalAddCancel_trace act_def logCall_def
        osExit_def)
qed

lemma Execute_rejected:
  "commandLine e = Inl err \<Longrightarrow>
   Execute e w = Exited 1 (w\<lparr>trace := trace w @ [A_Println err, A_Exit 1]\<rparr>)"
  by (simp add: Execute_def osExit_def act_def)

lemma Execute_interrupted_first:
  "commandLine e = Inr fs \<Longrightarrow> sigint e = Some 0 \<Longrightarrow>
   Execute e w = interruptListener (always fs w)"
  by (simp add: Execute_def)

lemma Execute_load_error:
  "commandLine e = Inr fs \<Longrightarrow> sigint e \<noteq> Some 0 \<Longrightarrow>
   snd (ReadInConfig (files e) (store (always fs w))) = Some err \<Longrightarrow>
   Execute e w =
     Exited 1 ((always fs w)\<lparr>trace := trace (always fs w) @
        [A_ReadInConfig, A_Log ErrorLevel ''failed to load config'' (Some err), A_Exit 1]\<rparr>)"
  by (simp add: Execute_def ReadConfig_error)

lemma Execute_loaded:
  "commandLine e = Inr fs \<Longrightarrow> sigint e \<noteq> Some 0 \<Longrightarrow>
   snd (ReadInConfig (files e) (store (always fs w))) = None \<Longrightarrow>
   Execute e w =
     Run (map_option (\<lambda>k. k - 1) (sigint e)) e
       (initLogger e
          ((always fs w)\<lparr>store := fst (ReadInConfig (files e) (store (always fs w))),
             trace := trace (always fs w) @ [A_ReadInConfig]\<rparr>))"
  by (simp add: Execute_def ReadConfig_loaded Run_def)

lemma shifted_interrupt:
  "sig \<noteq> Some 0 \<Longrightarrow>
   (map_option (\<lambda>k. k - 1) sig \<in> {Some 0, Some (1::nat), Some 2}) = (sig \<in> {Some 1, Some 2, Some 3})"
  "(map_option (\<lambda>k. k - 1) sig = None) = (sig = None)"
  by (cases sig; auto)+

lemma ReadInConfig_exampleDisk_ok:
  "configName v = ''pegnetd-conf'' \<Longrightarrow> configPaths v = [''$HOME/.pegnetd'', ''.''] \<Longrightarrow>
   snd (ReadInConfig exampleDisk v) = None"
  by (simp add: ReadInConfig_def exampleDisk_def)

lemma example_after_always:
  "configName (store (always init exampleStart)) = ''pegnetd-conf''"
  "configPaths (store (always init exampleStart)) = [''$HOME/.pegnetd'', ''.'']"
  by (simp_all add: always_store example_defs)

text \<open>
  C3, as the claim states it, fails: the exit status is 1 also when the command
  framework returns an error to \<^verbatim>\<open>Execute\<close> (lines 37 to 40), for instance on an unknown
  flag. In the run below the configuration file on disk would load and the node could be
  built, nothing but the printing of the error and the exit happens, and the status
  is 1.
\<close>

theorem exit_status_1_counterexample:
  "exitStatus
     (Execute (exampleEnv\<lparr>commandLine := Inl ''unknown flag: --bogus'', files := exampleDisk\<rparr>)
        exampleStart) = Some 1 \<and>
   trace (finalWorld
     (Execute (exampleEnv\<lparr>commandLine := Inl ''unknown flag: --bogus'', files := exampleDisk\<rparr>)
        exampleStart)) = [A_Println ''unknown flag: --bogus'', A_Exit 1] \<and>
   snd (ReadInConfig
          (files (exampleEnv\<lparr>commandLine := Inl ''unknown flag: --bogus'', files := exampleDisk\<rparr>))
          (store (always init exampleStart))) = None \<and>
   NewPegnetd (exampleEnv\<lparr>commandLine := Inl ''unknown flag: --bogus'', files := exampleDisk\<rparr>)
     (fst (ReadInConfig exampleDisk (store (always init exampleStart)))) = None"
proof -
  have "commandLine (exampleEnv\<lparr>commandLine := Inl ''unknown flag: --bogus'', files := exampleDisk\<rparr>)
          = Inl ''unknown flag: --bogus''"
    by simp
  from Execute_rejected [OF this, of exampleStart]
  have "Execute (exampleEnv\<lparr>commandLine := Inl ''unknown flag: --bogus'', files := exampleDisk\<rparr>)
          exampleStart
        = Exited 1 (exampleStart\<lparr>trace := trace exampleStart @
             [A_Println ''unknown flag: --bogus'', A_Exit 1]\<rparr>)" .
  moreover have "trace exampleStart = []"
    by (simp add: example_defs)
  moreover have "snd (ReadInConfig exampleDisk (store (always init exampleStart))) = None"
    by (rule ReadInConfig_exampleDisk_ok) (rule example_after_always)+
  moreover have "NewPegnetd exampleEnv v = None" for v
    by (simp add: example_defs)
  ultimately show ?thesis by simp
qed

text \<open>
  C3, amended. The exit status is 1 exactly when the command framework returns an error
  to \<^verbatim>\<open>Execute\<close>, or the configuration file fails to load in \<^verbatim>\<open>ReadConfig\<close>, or the
  construction of the node fails in \<^verbatim>\<open>Run\<close>, the last two in a run where the interrupt
  has not been handled before the failing call. It is 0 when the interrupt listener
  runs and when the sync loop returns; a process whose sync loop never returns and that
  gets no interrupt has no exit status. In the first case the error is printed and in
  the two others a log call at error level with the error is the last action before
  the exit.
\<close>

theorem Execute_exit_status:
  "exitStatus (Execute e w) =
     (case commandLine e of
        Inl err \<Rightarrow> Some 1
      | Inr fs \<Rightarrow>
          (if sigint e = Some 0 then Some 0
           else if snd (ReadInConfig (files e) (store (always fs w))) \<noteq> None then Some 1
           else if sigint e \<in> {Some 1, Some 2, Some 3} then Some 0
           else if NewPegnetd e (fst (ReadInConfig (files e) (store (always fs w)))) \<noteq> None
             then Some 1
           else if sigint e = None \<and> \<not> DBlockSyncReturns e then None
           else Some 0)) \<and>
   (\<forall>err. commandLine e = Inl err \<longrightarrow>
      trace (finalWorld (Execute e w)) = trace w @ [A_Println err, A_Exit 1]) \<and>
   (\<forall>fs err. commandLine e = Inr fs \<longrightarrow> sigint e \<noteq> Some 0 \<longrightarrow>
      snd (ReadInConfig (files e) (store (always fs w))) = Some err \<longrightarrow>
      trace (finalWorld (Execute e w)) =
        trace (always fs w) @
        [A_ReadInConfig, A_Log ErrorLevel ''failed to load config'' (Some err), A_Exit 1]) \<and>
   (\<forall>fs err. commandLine e = Inr fs \<longrightarrow> sigint e \<notin> {Some 0, Some 1, Some 2, Some 3} \<longrightarrow>
      snd (ReadInConfig (files e) (store (always fs w))) = None \<longrightarrow>
      NewPegnetd e (fst (ReadInConfig (files e) (store (always fs w)))) = Some err \<longrightarrow>
      (\<exists>t. trace (finalWorld (Execute e w)) =
         t @ [A_NewPegnetd, A_Log ErrorLevel ''failed to launch pegnet node'' (Some err),
              A_Exit 1]))"
proof (intro conjI allI impI)
  show "exitStatus (Execute e w) =
     (case commandLine e of
        Inl err \<Rightarrow> Some 1
      | Inr fs \<Rightarrow>
          (if sigint e = Some 0 then Some 0
           else if snd (ReadInConfig (files e) (store (always fs w))) \<noteq> None then Some 1
           else if sigint e \<in> {Some 1, Some 2, Some 3} then Some 0
           else if NewPegnetd e (fst (ReadInConfig (files e) (store (always fs w)))) \<noteq> None
             then Some 1
           else if sigint e = None \<and> \<not> DBlockSyncReturns e then None
           else Some 0))"
  proof (cases "commandLine e")
    case (Inl err)
    then show ?thesis by (simp add: Execute_rejected)
  next
    case (Inr fs)
    show ?thesis
    proof (cases "sigint e = Some 0")
      case True
      with Inr show ?thesis
        by (simp add: Execute_interrupted_first interruptListener_simps)
    next
      case first: False
      show ?thesis
      proof (cases "snd (ReadInConfig (files e) (store (always fs w)))")
        case (Some err)
        with Inr first show ?thesis by (simp add: Execute_load_error)
      next
        case None
        have s1: "(map_option (\<lambda>k. k - 1) (sigint e) \<in> {Some 0, Some 1, Some 2})
                    = (sigint e \<in> {Some 1, Some 2, Some 3})"
          using first by (rule shifted_interrupt(1))
        have s2: "(map_option (\<lambda>k. k - 1) (sigint e) = None) = (sigint e = None)"
          by (rule shifted_interrupt(2))
        have "exitStatus (Execute e w) =
           (if sigint e \<in> {Some 1, Some 2, Some 3} then Some 0
            else if NewPegnetd e (fst (ReadInConfig (files e) (store (always fs w)))) \<noteq> None
              then Some 1
            else if sigint e = None \<and> \<not> DBlockSyncReturns e then None
            else Some 0)"
          unfolding Execute_loaded [OF Inr first None] Run_status s1 s2
          by (simp add: initLogger_store del: insert_iff)
        with Inr first None show ?thesis
          by (simp del: insert_iff)
      qed
    qed
  qed
next
  fix err
  assume "commandLine e = Inl err"
  then show "trace (finalWorld (Execute e w)) = trace w @ [A_Println err, A_Exit 1]"
    by (simp add: Execute_rejected)
next
  fix fs err
  assume "commandLine e = Inr fs" and "sigint e \<noteq> Some 0"
    and "snd (ReadInConfig (files e) (store (always fs w))) = Some err"
  then show "trace (finalWorld (Execute e w)) =
        trace (always fs w) @
        [A_ReadInConfig, A_Log ErrorLevel ''failed to load config'' (Some err), A_Exit 1]"
    by (simp add: Execute_load_error)
next
  fix fs err
  assume cl: "commandLine e = Inr fs"
    and sig: "sigint e \<notin> {Some 0, Some 1, Some 2, Some 3}"
    and loaded: "snd (ReadInConfig (files e) (store (always fs w))) = None"
    and fail: "NewPegnetd e (fst (ReadInConfig (files e) (store (always fs w)))) = Some err"
  from sig have first: "sigint e \<noteq> Some 0" by simp
  have "(map_option (\<lambda>k. k - 1) (sigint e) \<in> {Some 0, Some 1, Some 2})
          = (sigint e \<in> {Some 1, Some 2, Some 3})"
    using first by (rule shifted_interrupt(1))
  with sig have late: "map_option (\<lambda>k. k - 1) (sigint e) \<notin> {Some 0, Some 1, Some 2}"
    by simp
  show "\<exists>t. trace (finalWorld (Execute e w)) =
         t @ [A_NewPegnetd, A_Log ErrorLevel ''failed to launch pegnet node'' (Some err),
              A_Exit 1]"
    unfolding Execute_loaded [OF cl first loaded]
    by (rule Run_node_failure_trace [OF _ late]) (simp add: initLogger_store fail)
qed

theorem Execute_exit_status_witness:
  "exitStatus (Execute exampleEnv exampleStart) = Some 1 \<and>
   trace (finalWorld (Execute exampleEnv exampleStart)) =
     trace (always init exampleStart) @
     [A_ReadInConfig, A_Log ErrorLevel ''failed to load config'' (Some ''Config File Not Found''),
      A_Exit 1] \<and>
   exitStatus
     (Execute (exampleEnv\<lparr>files := exampleDisk, NewPegnetd := \<lambda>v. Some ''no database''\<rparr>)
        exampleStart) = Some 1 \<and>
   (\<exists>t. trace (finalWorld
          (Execute (exampleEnv\<lparr>files := exampleDisk, NewPegnetd := \<lambda>v. Some ''no database''\<rparr>)
             exampleStart)) =
        t @ [A_NewPegnetd, A_Log ErrorLevel ''failed to launch pegnet node'' (Some ''no database''),
             A_Exit 1]) \<and>
   exitStatus (Execute (exampleEnv\<lparr>files := exampleDisk, sigint := Some 6\<rparr>) exampleStart)
     = Some 0 \<and>
   exitStatus (Execute (exampleEnv\<lparr>files := exampleDisk, DBlockSyncReturns := True\<rparr>) exampleStart)
     = Some 0 \<and>
   exitStatus (Execute (exampleEnv\<lparr>files := exampleDisk\<rparr>) exampleStart) = None"
proof -
  have missing: "snd (ReadInConfig (files exampleEnv) (store (always init exampleStart)))
                   = Some ''Config File Not Found''"
    by (simp add: ReadInConfig_def always_store example_defs)
  have ok: "snd (ReadInConfig exampleDisk (store (always init exampleStart))) = None"
    by (rule ReadInConfig_exampleDisk_ok) (rule example_after_always)+
  have cl: "commandLine exampleEnv = Inr init" and sg: "sigint exampleEnv = None"
    and nd: "\<And>v. NewPegnetd exampleEnv v = None" and rt: "\<not> DBlockSyncReturns exampleEnv"
    by (simp_all add: example_defs)
  have a: "exitStatus (Execute exampleEnv exampleStart) = Some 1 \<and>
           trace (finalWorld (Execute exampleEnv exampleStart)) =
             trace (always init exampleStart) @
             [A_ReadInConfig,
              A_Log ErrorLevel ''failed to load config'' (Some ''Config File Not Found''),
              A_Exit 1]"
    using Execute_exit_status [of exampleEnv exampleStart] missing cl sg by simp
  have b: "exitStatus
             (Execute (exampleEnv\<lparr>files := exampleDisk, NewPegnetd := \<lambda>v. Some ''no database''\<rparr>)
                exampleStart) = Some 1 \<and>
           (\<exists>t. trace (finalWorld
              (Execute (exampleEnv\<lparr>files := exampleDisk, NewPegnetd := \<lambda>v. Some ''no database''\<rparr>)
                 exampleStart)) =
            t @ [A_NewPegnetd,
                 A_Log ErrorLevel ''failed to launch pegnet node'' (Some ''no database''),
                 A_Exit 1])"
    using Execute_exit_status
        [of "exampleEnv\<lparr>files := exampleDisk, NewPegnetd := \<lambda>v. Some ''no database''\<rparr>"
            exampleStart] ok cl sg
    by simp
  have c: "exitStatus (Execute (exampleEnv\<lparr>files := exampleDisk, sigint := Some 6\<rparr>) exampleStart)
             = Some 0"
    using Execute_exit_status [of "exampleEnv\<lparr>files := exampleDisk, sigint := Some 6\<rparr>" exampleStart]
      ok cl nd
    by simp
  have d: "exitStatus
             (Execute (exampleEnv\<lparr>files := exampleDisk, DBlockSyncReturns := True\<rparr>) exampleStart)
             = Some 0"
    using Execute_exit_status
        [of "exampleEnv\<lparr>files := exampleDisk, DBlockSyncReturns := True\<rparr>" exampleStart]
      ok cl sg nd
    by simp
  have f: "exitStatus (Execute (exampleEnv\<lparr>files := exampleDisk\<rparr>) exampleStart) = None"
    using Execute_exit_status [of "exampleEnv\<lparr>files := exampleDisk\<rparr>" exampleStart]
      ok cl sg nd rt
    by simp
  from a b c d f show ?thesis by blast
qed

end
